theory Spec2Isabelle
  imports Main
begin

section \<open>The icon generator \<^verbatim>\<open>create_icons.py\<close>\<close>

text \<open>
  The script creates the directory \<^verbatim>\<open>dist/icons\<close> and then, for each size of the
  list \<^verbatim>\<open>[16, 48, 128]\<close>, paints a white triangle on a green square canvas, saves it
  under \<^verbatim>\<open>dist/icons/icon{size}.png\<close> and prints a confirmation line. Python integers
  are unbounded, so sizes and coordinates are of type \<^typ>\<open>int\<close>; Python's \<^verbatim>\<open>//\<close> is
  floor division, which is \<open>div\<close> on \<^typ>\<open>int\<close>.
\<close>

subsection \<open>Triangle geometry (lines 13 to 21)\<close>

text \<open>The loop variable \<^verbatim>\<open>size\<close> is written \<open>sz\<close>: \<open>size\<close> is a constant of HOL.\<close>

type_synonym point = "int \<times> int"

definition points :: "int \<Rightarrow> point list" where
  "points sz =
     (let arrow_size = sz div 3;
          center_x = sz div 2;
          center_y = sz div 2
      in [(center_x, center_y - arrow_size div 2),
          (center_x - arrow_size div 2, center_y + arrow_size div 2),
          (center_x + arrow_size div 2, center_y + arrow_size div 2)])"

subsection \<open>Errors\<close>

text \<open>
  The script catches nothing: an exception raised by a library call ends the process.
  Exceptions are values of type \<open>error\<close>; a call that touches the file system or the
  console returns either the exception together with the world as it was left, or the
  new world.
\<close>

datatype error =
    ValueError
  | IndexError
  | FileExistsError
  | FileNotFoundError
  | NotADirectoryError
  | IsADirectoryError
  | PermissionError

subsection \<open>Colours (\<^verbatim>\<open>ImageColor.getrgb\<close>, as Pillow applies it to colour strings)\<close>

text \<open>
  The script names its two colours by strings: \<^verbatim>\<open>'#4CAF50'\<close> and \<^verbatim>\<open>'white'\<close>. Pillow
  resolves a string through its table of colour names and then reads \<^verbatim>\<open>#rrggbb\<close> as
  three bytes, in either letter case. Only these two forms are modelled, with the one
  row of the table the script uses; every other string is outside the model and comes
  out as \<open>ValueError\<close>.
\<close>

type_synonym colour = "nat \<times> nat \<times> nat"

definition hex_digit :: "char \<Rightarrow> nat option" where
  "hex_digit c =
     map_of
       [(CHR ''0'', 0), (CHR ''1'', 1), (CHR ''2'', 2), (CHR ''3'', 3), (CHR ''4'', 4),
        (CHR ''5'', 5), (CHR ''6'', 6), (CHR ''7'', 7), (CHR ''8'', 8), (CHR ''9'', 9),
        (CHR ''a'', 10), (CHR ''b'', 11), (CHR ''c'', 12), (CHR ''d'', 13), (CHR ''e'', 14),
        (CHR ''f'', 15),
        (CHR ''A'', 10), (CHR ''B'', 11), (CHR ''C'', 12), (CHR ''D'', 13), (CHR ''E'', 14),
        (CHR ''F'', 15)] c"

definition hex_byte :: "char \<Rightarrow> char \<Rightarrow> nat option" where
  "hex_byte hi lo =
     (case hex_digit hi of
        None \<Rightarrow> None
      | Some h \<Rightarrow> (case hex_digit lo of None \<Rightarrow> None | Some l \<Rightarrow> Some (16 * h + l)))"

fun hex_rgb :: "string \<Rightarrow> error + colour" where
  "hex_rgb [h, r1, r2, g1, g2, b1, b2] =
     (if h = CHR ''#'' then
        (case hex_byte r1 r2 of
           None \<Rightarrow> Inl ValueError
         | Some r \<Rightarrow>
             (case hex_byte g1 g2 of
                None \<Rightarrow> Inl ValueError
              | Some g \<Rightarrow>
                  (case hex_byte b1 b2 of
                     None \<Rightarrow> Inl ValueError
                   | Some b \<Rightarrow> Inr (r, g, b))))
      else Inl ValueError)"
| "hex_rgb _ = Inl ValueError"

definition colormap :: "(string \<times> string) list" where
  "colormap = [(''white'', ''#ffffff'')]"

definition getrgb :: "string \<Rightarrow> error + colour" where
  "getrgb color =
     (case map_of colormap color of
        Some rgb \<Rightarrow> hex_rgb rgb
      | None \<Rightarrow> hex_rgb color)"

subsection \<open>Images (\<^verbatim>\<open>Image.new\<close>, \<^verbatim>\<open>ImageDraw.polygon\<close>)\<close>

text \<open>
  An RGB image is its size and its raster, a list of rows of pixels: the pixel at
  \<open>(x, y)\<close> is \<open>rows img ! y ! x\<close>. \<^verbatim>\<open>Image.new\<close> refuses a negative width or height
  and fills the raster with one colour. \<^verbatim>\<open>getpixel\<close> raises outside the raster.
\<close>

record image =
  width :: int
  height :: int
  rows :: "colour list list"

definition Image_new :: "int \<times> int \<Rightarrow> string \<Rightarrow> error + image" where
  "Image_new wh color =
     (case wh of (w, h) \<Rightarrow>
        if w < 0 \<or> h < 0 then Inl ValueError
        else (case getrgb color of
                Inl e \<Rightarrow> Inl e
              | Inr c \<Rightarrow>
                  Inr \<lparr>width = w, height = h,
                       rows = replicate (nat h) (replicate (nat w) c)\<rparr>))"

definition getpixel :: "image \<Rightarrow> point \<Rightarrow> error + colour" where
  "getpixel img xy =
     (case xy of (x, y) \<Rightarrow>
        if 0 \<le> x \<and> x < width img \<and> 0 \<le> y \<and> y < height img
        then Inr (rows img ! nat y ! nat x)
        else Inl IndexError)"

text \<open>
  \<^verbatim>\<open>draw.polygon(points, fill=...)\<close> paints the region enclosed by the closed path
  through the points, outline included. The region is modelled on the integer grid: a
  pixel is painted when it lies on an edge of the path, or when a ray from it to the
  right crosses the path an odd number of times. \<open>cross a b p\<close> is the cross product
  of \<open>b - a\<close> and \<open>p - a\<close>, whose sign tells on which side of the line through \<open>a\<close>
  and \<open>b\<close> the point \<open>p\<close> lies.
\<close>

definition cross :: "point \<Rightarrow> point \<Rightarrow> point \<Rightarrow> int" where
  "cross a b p = (fst b - fst a) * (snd p - snd a) - (snd b - snd a) * (fst p - fst a)"

definition on_edge :: "point \<times> point \<Rightarrow> point \<Rightarrow> bool" where
  "on_edge e p =
     (case e of (a, b) \<Rightarrow>
        cross a b p = 0 \<and>
        min (fst a) (fst b) \<le> fst p \<and> fst p \<le> max (fst a) (fst b) \<and>
        min (snd a) (snd b) \<le> snd p \<and> snd p \<le> max (snd a) (snd b))"

definition crosses :: "point \<times> point \<Rightarrow> point \<Rightarrow> bool" where
  "crosses e p =
     (case e of (a, b) \<Rightarrow>
        if snd a \<le> snd p \<and> snd p < snd b then 0 < cross a b p
        else if snd b \<le> snd p \<and> snd p < snd a then cross a b p < 0
        else False)"

definition edges :: "point list \<Rightarrow> (point \<times> point) list" where
  "edges xy = zip xy (rotate1 xy)"

definition covered :: "point list \<Rightarrow> point \<Rightarrow> bool" where
  "covered xy p =
     (list_ex (\<lambda>e. on_edge e p) (edges xy) \<or>
      odd (length (filter (\<lambda>e. crosses e p) (edges xy))))"

definition polygon :: "image \<Rightarrow> point list \<Rightarrow> string \<Rightarrow> error + image" where
  "polygon img xy fill =
     (case getrgb fill of
        Inl e \<Rightarrow> Inl e
      | Inr ink \<Rightarrow>
          Inr (img\<lparr>rows :=
                 map (\<lambda>y. map (\<lambda>x. if covered xy (int x, int y) then ink
                                     else rows img ! y ! x)
                            [0..<nat (width img)])
                     [0..<nat (height img)]\<rparr>))"

subsection \<open>The file system and the console\<close>

text \<open>
  The world the script acts on: the file system below the working directory, the
  paths on which the operating system refuses to create or write (no permission, disk
  full), and the lines printed so far. A path is the list of its components; the empty
  path is the working directory itself, which exists and is a directory. A file holds
  the image that was encoded into it: the PNG encoder of Pillow is not part of the
  script, and the bytes it writes are determined by the raster.
\<close>

type_synonym path = "string list"

datatype node = Dir | File image

record world =
  fs :: "path \<Rightarrow> node option"
  denied :: "path set"
  stdout :: "string list"

type_synonym result = "(error \<times> world) + world"

fun split_on :: "char \<Rightarrow> string \<Rightarrow> string list" where
  "split_on sep [] = [[]]"
| "split_on sep (c # cs) =
     (if c = sep then [] # split_on sep cs
      else (case split_on sep cs of
              [] \<Rightarrow> [[c]]
            | part # parts \<Rightarrow> (c # part) # parts))"

definition components :: "string \<Rightarrow> path" where
  "components name = filter (\<lambda>part. part \<noteq> []) (split_on (CHR ''/'') name)"

definition os_path_exists :: "world \<Rightarrow> path \<Rightarrow> bool" where
  "os_path_exists w p = (p = [] \<or> fs w p \<noteq> None)"

definition os_path_isdir :: "world \<Rightarrow> path \<Rightarrow> bool" where
  "os_path_isdir w p = (p = [] \<or> fs w p = Some Dir)"

text \<open>
  \<^verbatim>\<open>mkdir\<close> creates one directory. It fails when the parent is missing or is not a
  directory, when the path exists already, and when the system refuses.
\<close>

definition os_mkdir :: "path \<Rightarrow> world \<Rightarrow> result" where
  "os_mkdir p w =
     (if \<not> os_path_exists w (butlast p) then Inl (FileNotFoundError, w)
      else if \<not> os_path_isdir w (butlast p) then Inl (NotADirectoryError, w)
      else if os_path_exists w p then Inl (FileExistsError, w)
      else if p \<in> denied w then Inl (PermissionError, w)
      else Inr (w\<lparr>fs := (fs w)(p \<mapsto> Dir)\<rparr>))"

text \<open>
  \<^verbatim>\<open>os.makedirs(name, exist_ok)\<close> of the standard library: when the parent \<open>head\<close> of
  the path is missing it is created first, by the same function, and a
  \<open>FileExistsError\<close> of that inner call is passed over; then the directory itself is
  made, and the error of \<^verbatim>\<open>mkdir\<close> is raised again unless \<open>exist_ok\<close> holds and the
  path is a directory.
\<close>

function makedirs_path :: "path \<Rightarrow> bool \<Rightarrow> world \<Rightarrow> result" where
  "makedirs_path name exist_ok w =
     (let head = butlast name in
      case (if head \<noteq> [] \<and> \<not> os_path_exists w head
            then (case makedirs_path head exist_ok w of
                    Inl (e, w') \<Rightarrow> if e = FileExistsError then Inr w' else Inl (e, w')
                  | Inr w' \<Rightarrow> Inr w')
            else Inr w) of
        Inl failure \<Rightarrow> Inl failure
      | Inr w' \<Rightarrow>
          (case os_mkdir name w' of
             Inl (e, w'') \<Rightarrow>
               if \<not> exist_ok \<or> \<not> os_path_isdir w'' name then Inl (e, w'') else Inr w''
           | Inr w'' \<Rightarrow> Inr w''))"
  by pat_completeness auto
termination
proof (relation "measure (\<lambda>(name, exist_ok, w). length name)")
  show "wf (measure (\<lambda>(name, exist_ok, w). length name))"
    by simp
next
  fix name :: path and exist_ok :: bool and w :: world and head :: path
  assume "head = butlast name" and "head \<noteq> [] \<and> \<not> os_path_exists w head"
  then have "name \<noteq> []"
    by auto
  then show "((head, exist_ok, w), name, exist_ok, w) \<in> measure (\<lambda>(name, exist_ok, w). length name)"
    using \<open>head = butlast name\<close> by simp
qed

declare makedirs_path.simps [simp del]

definition os_makedirs :: "string \<Rightarrow> bool \<Rightarrow> world \<Rightarrow> result" where
  "os_makedirs name exist_ok w = makedirs_path (components name) exist_ok w"

text \<open>
  \<^verbatim>\<open>img.save(fp)\<close> opens the file for writing, creating or truncating it, and writes
  the encoded image: the suffix \<^verbatim>\<open>.png\<close> selects the PNG encoder. Opening fails when
  the parent is missing or is not a directory, when the path is a directory, and when
  the system refuses.
\<close>

definition Image_save :: "image \<Rightarrow> string \<Rightarrow> world \<Rightarrow> result" where
  "Image_save img fp w =
     (let p = components fp in
      if \<not> os_path_exists w (butlast p) then Inl (FileNotFoundError, w)
      else if \<not> os_path_isdir w (butlast p) then Inl (NotADirectoryError, w)
      else if os_path_isdir w p then Inl (IsADirectoryError, w)
      else if p \<in> denied w then Inl (PermissionError, w)
      else Inr (w\<lparr>fs := (fs w)(p \<mapsto> File img)\<rparr>))"

definition print :: "string \<Rightarrow> world \<Rightarrow> world" where
  "print line w = w\<lparr>stdout := stdout w @ [line]\<rparr>"

subsection \<open>Formatting an integer (\<^verbatim>\<open>{size}\<close> in an f-string)\<close>

definition digit_char :: "nat \<Rightarrow> char" where
  "digit_char d = ''0123456789'' ! d"

function str_nat :: "nat \<Rightarrow> string" where
  "str_nat n = (if n < 10 then [digit_char n] else str_nat (n div 10) @ [digit_char (n mod 10)])"
  by pat_completeness auto
termination
  by (relation "measure id") auto

declare str_nat.simps [simp del]

definition str :: "int \<Rightarrow> string" where
  "str i = (if i < 0 then CHR ''-'' # str_nat (nat (- i)) else str_nat (nat i))"

subsection \<open>The script\<close>

text \<open>Lines 9 to 23: the canvas with the triangle painted on it.\<close>

definition draw_icon :: "int \<Rightarrow> error + image" where
  "draw_icon sz =
     (case Image_new (sz, sz) ''#4CAF50'' of
        Inl e \<Rightarrow> Inl e
      | Inr img \<Rightarrow> polygon img (points sz) ''white'')"

text \<open>Lines 9 to 25: the body of the loop, for one size.\<close>

definition loop_body :: "int \<Rightarrow> world \<Rightarrow> result" where
  "loop_body sz w =
     (case draw_icon sz of
        Inl e \<Rightarrow> Inl (e, w)
      | Inr img \<Rightarrow>
          (case Image_save img (''dist/icons/icon'' @ str sz @ ''.png'') w of
             Inl failure \<Rightarrow> Inl failure
           | Inr w' \<Rightarrow> Inr (print (''Created icon'' @ str sz @ ''.png'') w')))"

text \<open>Line 8: the loop. An exception in the body ends it.\<close>

fun for_size_in :: "int list \<Rightarrow> world \<Rightarrow> result" where
  "for_size_in [] w = Inr w"
| "for_size_in (sz # rest) w =
     (case loop_body sz w of
        Inl failure \<Rightarrow> Inl failure
      | Inr w' \<Rightarrow> for_size_in rest w')"

text \<open>The whole script: line 5, then the loop over the three sizes.\<close>

definition create_icons :: "world \<Rightarrow> result" where
  "create_icons w =
     (case os_makedirs ''dist/icons'' True w of
        Inl failure \<Rightarrow> Inl failure
      | Inr w' \<Rightarrow> for_size_in [16, 48, 128] w')"

subsection \<open>Notions used to state the properties\<close>

text \<open>
  The path the loop body saves to, and the line it prints, for one size: the two
  f-strings of lines 24 and 25.
\<close>

definition icon_path :: "int \<Rightarrow> path" where
  "icon_path sz = components (''dist/icons/icon'' @ str sz @ ''.png'')"

definition created_line :: "int \<Rightarrow> string" where
  "created_line sz = ''Created icon'' @ str sz @ ''.png''"

text \<open>
  What a run needs of the world it starts in. A directory can be had at a path when it
  is there already, or when nothing is there and the system does not refuse to create
  it. A file can be written at a path when the path is not a directory and the system
  does not refuse. The script can run when both directories can be had and the three
  files can be written.
\<close>

definition dir_obtainable :: "world \<Rightarrow> path \<Rightarrow> bool" where
  "dir_obtainable w p = (fs w p = Some Dir \<or> (fs w p = None \<and> p \<notin> denied w))"

definition file_writable :: "world \<Rightarrow> path \<Rightarrow> bool" where
  "file_writable w p = (fs w p \<noteq> Some Dir \<and> p \<notin> denied w)"

definition runnable :: "world \<Rightarrow> bool" where
  "runnable w =
     (dir_obtainable w [''dist''] \<and> dir_obtainable w [''dist'', ''icons''] \<and>
      file_writable w (icon_path 16) \<and> file_writable w (icon_path 48) \<and>
      file_writable w (icon_path 128))"


definition is_file :: "node option \<Rightarrow> bool" where
  "is_file entry = (case entry of Some (File img) \<Rightarrow> True | _ \<Rightarrow> False)"


text \<open>
  Worlds to run the script in: nothing there yet; both directories there; a regular
  file in the place of \<^verbatim>\<open>dist/icons\<close>; nothing there, and the system refusing to
  write \<^verbatim>\<open>dist/icons/icon48.png\<close>; both directories there, and in them a file
  \<^verbatim>\<open>icon32.png\<close> from some earlier time.
\<close>

definition blank :: image where
  "blank = \<lparr>width = 1, height = 1, rows = [[(0, 0, 0)]]\<rparr>"

definition fresh_world :: world where
  "fresh_world = \<lparr>fs = Map.empty, denied = {}, stdout = []\<rparr>"

definition prepared_world :: world where
  "prepared_world =
     \<lparr>fs = [[''dist''] \<mapsto> Dir, [''dist'', ''icons''] \<mapsto> Dir], denied = {}, stdout = []\<rparr>"

definition blocked_world :: world where
  "blocked_world =
     \<lparr>fs = [[''dist''] \<mapsto> Dir, [''dist'', ''icons''] \<mapsto> File blank], denied = {},
      stdout = []\<rparr>"



section \<open>Properties\<close>

subsection \<open>Arithmetic of the vertices\<close>

lemma half_arrow_sixth: "(sz::int) div 3 div 2 = sz div 6"
  using zdiv_zmult2_eq [of 2 sz 3] by simp

lemma points_sixth:
  "points sz =
     [(sz div 2, sz div 2 - sz div 6),
      (sz div 2 - sz div 6, sz div 2 + sz div 6),
      (sz div 2 + sz div 6, sz div 2 + sz div 6)]"
  unfolding points_def Let_def half_arrow_sixth by simp

text \<open>
  C1. For every non-negative (in particular every positive) size, the nested quotient
  \<open>(size div 3) div 2\<close> of the code equals \<open>size div 6\<close>, and the three vertices are
  \<open>(c, c - size div 6)\<close>, \<open>(c - size div 6, c + size div 6)\<close> and
  \<open>(c + size div 6, c + size div 6)\<close> with \<open>c = size div 2\<close>.
\<close>

theorem points_floor_sixth:
  assumes "0 \<le> sz"
  shows "(sz div 3) div 2 = sz div 6 \<and>
         points sz =
           [(sz div 2, sz div 2 - sz div 6),
            (sz div 2 - sz div 6, sz div 2 + sz div 6),
            (sz div 2 + sz div 6, sz div 2 + sz div 6)]"
  by (simp add: half_arrow_sixth points_sixth)

theorem points_floor_sixth_witness:
  "(0::int) \<le> 16 \<and> ((16::int) div 3) div 2 = 16 div 6 \<and>
   points 16 = [(8, 6), (6, 10), (10, 10)]"
  using points_floor_sixth [of 16] by simp

text \<open>
  C9. For every positive size, each coordinate of each vertex lies between \<open>0\<close> and
  \<open>size - 1\<close>: the triangle stays within the canvas.
\<close>

theorem points_within_canvas:
  assumes "0 < sz"
  shows "\<forall>(x, y) \<in> set (points sz). 0 \<le> x \<and> x \<le> sz - 1 \<and> 0 \<le> y \<and> y \<le> sz - 1"
proof -
  have lo: "0 \<le> sz div 2 - sz div 6" and hi: "sz div 2 + sz div 6 \<le> sz - 1"
    using assms by linarith+
  have mid: "0 \<le> sz div 2" "sz div 2 \<le> sz - 1" "0 \<le> sz div 6"
    using assms by linarith+
  show ?thesis
    unfolding points_sixth using lo hi mid by simp
qed

theorem points_within_canvas_witness:
  "(0::int) < 48 \<and> points 48 = [(24, 16), (16, 32), (32, 32)] \<and>
   list_all (\<lambda>(x, y). 0 \<le> x \<and> x \<le> 48 - 1 \<and> 0 \<le> y \<and> y \<le> 48 - 1) (points 48)"
  using points_within_canvas [of 48] by (simp add: points_sixth)

text \<open>
  C10. For a positive size, the half-arrow offset \<open>(size div 3) div 2\<close> is zero exactly
  when the size is below 6. Below 6 the three vertices coincide at
  \<open>(size div 2, size div 2)\<close>; from 6 on the offset is positive and the three vertices
  are pairwise different.
\<close>

theorem points_degenerate_below_six:
  assumes "0 < sz"
  shows "((sz div 3) div 2 = 0 \<longleftrightarrow> sz < 6) \<and>
         (sz < 6 \<longrightarrow>
            points sz = [(sz div 2, sz div 2), (sz div 2, sz div 2), (sz div 2, sz div 2)]) \<and>
         (6 \<le> sz \<longrightarrow> 0 < (sz div 3) div 2 \<and> distinct (points sz))"
proof -
  have zero: "sz div 6 = 0 \<longleftrightarrow> sz < 6"
    using assms by linarith
  have pos: "6 \<le> sz \<Longrightarrow> 0 < sz div 6"
    by linarith
  show ?thesis
    unfolding half_arrow_sixth points_sixth using zero pos by auto
qed

theorem points_degenerate_below_six_witness:
  "(0::int) < 5 \<and> ((5::int) div 3) div 2 = 0 \<and> points 5 = [(2, 2), (2, 2), (2, 2)] \<and>
   (6::int) \<le> 16 \<and> 0 < ((16::int) div 3) div 2 \<and> distinct (points 16)"
  using points_degenerate_below_six [of 5] points_degenerate_below_six [of 16] by simp

subsection \<open>Colours, the drawn image, paths\<close>

lemma getrgb_background: "getrgb ''#4CAF50'' = Inr (76, 175, 80)"
  by (simp add: getrgb_def colormap_def hex_byte_def hex_digit_def)

lemma getrgb_white: "getrgb ''white'' = Inr (255, 255, 255)"
  by (simp add: getrgb_def colormap_def hex_byte_def hex_digit_def)

lemma draw_icon_nonneg:
  assumes "0 \<le> sz"
  shows "draw_icon sz =
           Inr \<lparr>width = sz, height = sz,
                rows = map (\<lambda>y. map (\<lambda>x. if covered (points sz) (int x, int y)
                                           then (255, 255, 255) else (76, 175, 80))
                                  [0..<nat sz])
                           [0..<nat sz]\<rparr>"
  using assms
  by (simp add: draw_icon_def Image_new_def polygon_def getrgb_background getrgb_white
      cong: map_cong)

lemma draw_icon_negative: "sz < 0 \<Longrightarrow> draw_icon sz = Inl ValueError"
  by (simp add: draw_icon_def Image_new_def)

lemma getpixel_draw_icon:
  assumes "draw_icon sz = Inr img" and "0 \<le> x" and "x < sz" and "0 \<le> y" and "y < sz"
  shows "getpixel img (x, y) =
           Inr (if covered (points sz) (x, y) then (255, 255, 255) else (76, 175, 80))"
proof -
  have "0 \<le> sz"
    using assms by linarith
  from draw_icon_nonneg [OF this] assms(1)
  have img: "img = \<lparr>width = sz, height = sz,
                rows = map (\<lambda>y. map (\<lambda>x. if covered (points sz) (int x, int y)
                                           then (255, 255, 255) else (76, 175, 80))
                                  [0..<nat sz])
                           [0..<nat sz]\<rparr>"
    by simp
  have "nat x < nat sz" "nat y < nat sz"
    using assms by linarith+
  then show ?thesis
    using assms(2-5) by (simp add: getpixel_def img)
qed

lemma components_icons_dir: "components ''dist/icons'' = [''dist'', ''icons'']"
  by (simp add: components_def)

lemma str_sizes: "str 16 = ''16''" "str 48 = ''48''" "str 128 = ''128''"
  by (simp_all add: str_def str_nat.simps digit_char_def)

lemma makedirs_single:
  "makedirs_path [d] exist_ok w =
     (case os_mkdir [d] w of
        Inl (e, w'') \<Rightarrow> if \<not> exist_ok \<or> \<not> os_path_isdir w'' [d] then Inl (e, w'') else Inr w''
      | Inr w'' \<Rightarrow> Inr w'')"
  by (simp add: makedirs_path.simps [of "[d]"])

lemma icon_path_sizes:
  "icon_path 16 = [''dist'', ''icons'', ''icon16.png'']"
  "icon_path 48 = [''dist'', ''icons'', ''icon48.png'']"
  "icon_path 128 = [''dist'', ''icons'', ''icon128.png'']"
  by (simp_all add: icon_path_def str_sizes components_def)

lemma created_line_sizes:
  "created_line 16 = ''Created icon16.png''"
  "created_line 48 = ''Created icon48.png''"
  "created_line 128 = ''Created icon128.png''"
  by (simp_all add: created_line_def str_sizes)

text \<open>
  The directory step \<^verbatim>\<open>os.makedirs('dist/icons', exist_ok=True)\<close>, by what is found
  at \<^verbatim>\<open>dist\<close>: a directory, a regular file, or nothing.
\<close>

lemma makedirs_icons_parent_dir:
  assumes "fs w [''dist''] = Some Dir"
  shows "os_makedirs ''dist/icons'' True w =
           (case fs w [''dist'', ''icons''] of
              Some Dir \<Rightarrow> Inr w
            | Some (File img) \<Rightarrow> Inl (FileExistsError, w)
            | None \<Rightarrow>
                if [''dist'', ''icons''] \<in> denied w then Inl (PermissionError, w)
                else Inr (w\<lparr>fs := (fs w)([''dist'', ''icons''] \<mapsto> Dir)\<rparr>))"
  using assms
  by (simp add: os_makedirs_def components_icons_dir makedirs_path.simps [of "[''dist'', ''icons'']"]
      os_mkdir_def os_path_exists_def os_path_isdir_def split: option.split node.split)

lemma makedirs_icons_parent_file:
  assumes "fs w [''dist''] = Some (File img)" and "fs w [''dist'', ''icons''] \<noteq> Some Dir"
  shows "os_makedirs ''dist/icons'' True w =
           Inl (NotADirectoryError, w)"
  using assms
  by (simp add: os_makedirs_def components_icons_dir makedirs_path.simps [of "[''dist'', ''icons'']"]
      os_mkdir_def os_path_exists_def os_path_isdir_def split: option.split node.split)

lemma makedirs_icons_parent_missing:
  assumes "fs w [''dist''] = None"
  shows "os_makedirs ''dist/icons'' True w =
           (if [''dist''] \<in> denied w then Inl (PermissionError, w)
            else (case fs w [''dist'', ''icons''] of
              Some Dir \<Rightarrow> Inr (w\<lparr>fs := (fs w)([''dist''] \<mapsto> Dir)\<rparr>)
            | Some (File img) \<Rightarrow> Inl (FileExistsError, w\<lparr>fs := (fs w)([''dist''] \<mapsto> Dir)\<rparr>)
            | None \<Rightarrow>
                if [''dist'', ''icons''] \<in> denied w
                then Inl (PermissionError, w\<lparr>fs := (fs w)([''dist''] \<mapsto> Dir)\<rparr>)
                else Inr (w\<lparr>fs := (fs w)([''dist''] \<mapsto> Dir, [''dist'', ''icons''] \<mapsto> Dir)\<rparr>)))"
  using assms
  by (simp add: os_makedirs_def components_icons_dir makedirs_path.simps [of "[''dist'', ''icons'']"]
      makedirs_single
      os_mkdir_def os_path_exists_def os_path_isdir_def split: option.split node.split)

subsection \<open>The directory step and the loop body\<close>

lemma makedirs_icons_obtainable:
  assumes "dir_obtainable w [''dist'']" and "dir_obtainable w [''dist'', ''icons'']"
  shows "os_makedirs ''dist/icons'' True w =
           Inr (w\<lparr>fs := (fs w)([''dist''] \<mapsto> Dir, [''dist'', ''icons''] \<mapsto> Dir)\<rparr>)"
proof (cases "fs w [''dist'']")
  case None
  with assms(1) have free: "[''dist''] \<notin> denied w"
    by (simp add: dir_obtainable_def)
  show ?thesis
  proof (cases "fs w [''dist'', ''icons'']")
    case inner: None
    with assms(2) have "[''dist'', ''icons''] \<notin> denied w"
      by (simp add: dir_obtainable_def)
    with None free inner show ?thesis
      by (simp add: makedirs_icons_parent_missing)
  next
    case (Some n)
    with assms(2) have dir: "fs w [''dist'', ''icons''] = Some Dir"
      by (simp add: dir_obtainable_def)
    then have "(fs w)([''dist''] \<mapsto> Dir, [''dist'', ''icons''] \<mapsto> Dir) = (fs w)([''dist''] \<mapsto> Dir)"
      by (simp add: fun_upd_idem)
    with None free dir show ?thesis
      by (simp add: makedirs_icons_parent_missing)
  qed
next
  case (Some n)
  with assms(1) have outer: "fs w [''dist''] = Some Dir"
    by (simp add: dir_obtainable_def)
  then have same: "(fs w)([''dist''] \<mapsto> Dir) = fs w"
    by (simp add: fun_upd_idem)
  show ?thesis
  proof (cases "fs w [''dist'', ''icons'']")
    case None
    with assms(2) have "[''dist'', ''icons''] \<notin> denied w"
      by (simp add: dir_obtainable_def)
    with outer None same show ?thesis
      by (simp add: makedirs_icons_parent_dir)
  next
    case inner: (Some m)
    with assms(2) have dir: "fs w [''dist'', ''icons''] = Some Dir"
      by (simp add: dir_obtainable_def)
    then have "(fs w)([''dist'', ''icons''] \<mapsto> Dir) = fs w"
      by (simp add: fun_upd_idem)
    with outer dir same show ?thesis
      by (simp add: makedirs_icons_parent_dir)
  qed
qed

lemma makedirs_icons_regular_file:
  assumes "fs w [''dist'', ''icons''] = Some (File img)"
  shows "\<exists>e w'. os_makedirs ''dist/icons'' True w = Inl (e, w') \<and> stdout w' = stdout w"
proof (cases "fs w [''dist'']")
  case None
  with assms show ?thesis
    by (simp add: makedirs_icons_parent_missing)
next
  case (Some n)
  show ?thesis
  proof (cases n)
    case Dir
    with Some assms show ?thesis
      by (simp add: makedirs_icons_parent_dir)
  next
    case (File other)
    with Some assms show ?thesis
      by (simp add: makedirs_icons_parent_file)
  qed
qed

lemma split_on_head:
  assumes "c \<noteq> sep"
  shows "\<exists>part parts. split_on sep (c # cs) = (c # part) # parts"
  using assms by (cases "split_on sep cs") auto

lemma components_Cons_nonempty:
  assumes "c \<noteq> CHR ''/''"
  shows "components (c # cs) \<noteq> []"
proof -
  obtain part parts where "split_on (CHR ''/'') (c # cs) = (c # part) # parts"
    using split_on_head [OF assms] by blast
  then show ?thesis
    by (simp add: components_def)
qed

lemma icon_path_nonempty: "icon_path sz \<noteq> []"
  by (simp add: icon_path_def components_Cons_nonempty)

lemma loop_body_unfold:
  "loop_body sz w =
     (case draw_icon sz of
        Inl e \<Rightarrow> Inl (e, w)
      | Inr img \<Rightarrow>
          if \<not> os_path_exists w (butlast (icon_path sz)) then Inl (FileNotFoundError, w)
          else if \<not> os_path_isdir w (butlast (icon_path sz)) then Inl (NotADirectoryError, w)
          else if fs w (icon_path sz) = Some Dir then Inl (IsADirectoryError, w)
          else if icon_path sz \<in> denied w then Inl (PermissionError, w)
          else Inr (w\<lparr>fs := (fs w)(icon_path sz \<mapsto> File img),
                      stdout := stdout w @ [created_line sz]\<rparr>))"
  unfolding loop_body_def Image_save_def Let_def print_def
    icon_path_def [symmetric] created_line_def [symmetric]
  by (simp add: os_path_isdir_def icon_path_nonempty split: sum.split)

lemma loop_body_saved:
  assumes "draw_icon sz = Inr img"
    and "fs w (butlast (icon_path sz)) = Some Dir"
    and "file_writable w (icon_path sz)"
  shows "loop_body sz w =
           Inr (w\<lparr>fs := (fs w)(icon_path sz \<mapsto> File img),
                  stdout := stdout w @ [created_line sz]\<rparr>)"
  using assms
  by (simp add: loop_body_unfold file_writable_def os_path_exists_def os_path_isdir_def)


subsection \<open>A run that nothing stops\<close>

lemma draw_icon_sizes:
  "\<exists>i16 i48 i128. draw_icon 16 = Inr i16 \<and> draw_icon 48 = Inr i48 \<and> draw_icon 128 = Inr i128"
  by (simp add: draw_icon_nonneg)

lemma run_from_runnable:
  assumes run: "runnable w"
    and i16: "draw_icon 16 = Inr i16"
    and i48: "draw_icon 48 = Inr i48"
    and i128: "draw_icon 128 = Inr i128"
  shows "create_icons w =
           Inr (w\<lparr>fs := (fs w)([''dist''] \<mapsto> Dir, [''dist'', ''icons''] \<mapsto> Dir,
                               icon_path 16 \<mapsto> File i16, icon_path 48 \<mapsto> File i48,
                               icon_path 128 \<mapsto> File i128),
                  stdout := stdout w @ [created_line 16, created_line 48, created_line 128]\<rparr>)"
proof -
  define w0 where "w0 = w\<lparr>fs := (fs w)([''dist''] \<mapsto> Dir, [''dist'', ''icons''] \<mapsto> Dir)\<rparr>"
  define w1 where "w1 = w0\<lparr>fs := (fs w0)(icon_path 16 \<mapsto> File i16),
                          stdout := stdout w0 @ [created_line 16]\<rparr>"
  define w2 where "w2 = w1\<lparr>fs := (fs w1)(icon_path 48 \<mapsto> File i48),
                          stdout := stdout w1 @ [created_line 48]\<rparr>"
  define w3 where "w3 = w2\<lparr>fs := (fs w2)(icon_path 128 \<mapsto> File i128),
                          stdout := stdout w2 @ [created_line 128]\<rparr>"
  have dirs: "os_makedirs ''dist/icons'' True w = Inr w0"
    using run by (simp add: runnable_def makedirs_icons_obtainable w0_def)
  have s1: "loop_body 16 w0 = Inr w1"
    unfolding w1_def
    using run by (intro loop_body_saved [OF i16])
      (simp_all add: w0_def runnable_def file_writable_def icon_path_sizes)
  have s2: "loop_body 48 w1 = Inr w2"
    unfolding w2_def
    using run by (intro loop_body_saved [OF i48])
      (simp_all add: w1_def w0_def runnable_def file_writable_def icon_path_sizes)
  have s3: "loop_body 128 w2 = Inr w3"
    unfolding w3_def
    using run by (intro loop_body_saved [OF i128])
      (simp_all add: w2_def w1_def w0_def runnable_def file_writable_def icon_path_sizes)
  have "create_icons w = Inr w3"
    by (simp add: create_icons_def dirs s1 s2 s3)
  also have "w3 = w\<lparr>fs := (fs w)([''dist''] \<mapsto> Dir, [''dist'', ''icons''] \<mapsto> Dir,
                               icon_path 16 \<mapsto> File i16, icon_path 48 \<mapsto> File i48,
                               icon_path 128 \<mapsto> File i128),
                  stdout := stdout w @ [created_line 16, created_line 48, created_line 128]\<rparr>"
    by (simp add: w3_def w2_def w1_def w0_def)
  finally show ?thesis .
qed

subsection \<open>The claims about a whole run\<close>

text \<open>
  C2. In a world where the script can run, the run ends without an exception; it
  leaves the file system as it was but for the two directories and the three files
  \<^verbatim>\<open>dist/icons/icon16.png\<close>, \<^verbatim>\<open>dist/icons/icon48.png\<close> and
  \<^verbatim>\<open>dist/icons/icon128.png\<close>, each holding the image drawn for its size, and it adds to
  the console exactly the three lines \<^verbatim>\<open>Created icon16.png\<close>, \<^verbatim>\<open>Created icon48.png\<close>,
  \<^verbatim>\<open>Created icon128.png\<close>, in this order.
\<close>

theorem create_icons_files_and_lines:
  assumes "runnable w"
  shows "\<exists>i16 i48 i128.
           draw_icon 16 = Inr i16 \<and> draw_icon 48 = Inr i48 \<and> draw_icon 128 = Inr i128 \<and>
           create_icons w =
             Inr (w\<lparr>fs := (fs w)([''dist''] \<mapsto> Dir, [''dist'', ''icons''] \<mapsto> Dir,
                                 [''dist'', ''icons'', ''icon16.png''] \<mapsto> File i16,
                                 [''dist'', ''icons'', ''icon48.png''] \<mapsto> File i48,
                                 [''dist'', ''icons'', ''icon128.png''] \<mapsto> File i128),
                    stdout := stdout w @
                      [''Created icon16.png'', ''Created icon48.png'', ''Created icon128.png'']\<rparr>)"
proof -
  obtain i16 i48 i128
    where imgs: "draw_icon 16 = Inr i16" "draw_icon 48 = Inr i48" "draw_icon 128 = Inr i128"
    using draw_icon_sizes by blast
  from run_from_runnable [OF assms imgs] imgs show ?thesis
    by (simp add: icon_path_sizes created_line_sizes)
qed

theorem create_icons_files_and_lines_witness:
  "runnable fresh_world \<and>
   \<not> isl (create_icons fresh_world) \<and>
   stdout (projr (create_icons fresh_world)) =
     [''Created icon16.png'', ''Created icon48.png'', ''Created icon128.png''] \<and>
   is_file (fs (projr (create_icons fresh_world)) [''dist'', ''icons'', ''icon16.png'']) \<and>
   is_file (fs (projr (create_icons fresh_world)) [''dist'', ''icons'', ''icon48.png'']) \<and>
   is_file (fs (projr (create_icons fresh_world)) [''dist'', ''icons'', ''icon128.png'']) \<and>
   fs (projr (create_icons fresh_world)) [''dist'', ''icons'', ''icon32.png''] = None"
proof -
  have ready: "runnable fresh_world"
    by (simp add: runnable_def dir_obtainable_def file_writable_def fresh_world_def)
  from create_icons_files_and_lines [OF ready] ready show ?thesis
    by (auto simp add: fresh_world_def is_file_def)
qed

text \<open>
  C8. The directory step \<^verbatim>\<open>os.makedirs('dist/icons', exist_ok=True)\<close>. When
  \<^verbatim>\<open>dist/icons\<close> is missing, and \<^verbatim>\<open>dist\<close> is there or can be created and the system
  does not refuse, the step creates \<^verbatim>\<open>dist/icons\<close>, and \<^verbatim>\<open>dist\<close> with it. When both
  are directories already the step succeeds and changes nothing. When \<^verbatim>\<open>dist/icons\<close>
  is a regular file the step raises, and with it the script: nothing is printed; with
  \<^verbatim>\<open>dist\<close> a directory the exception is \<open>FileExistsError\<close> and the world is left as it
  was.
\<close>

theorem makedirs_dist_icons:
  "(fs w [''dist'', ''icons''] = None \<and> dir_obtainable w [''dist''] \<and>
    [''dist'', ''icons''] \<notin> denied w \<longrightarrow>
      os_makedirs ''dist/icons'' True w =
        Inr (w\<lparr>fs := (fs w)([''dist''] \<mapsto> Dir, [''dist'', ''icons''] \<mapsto> Dir)\<rparr>)) \<and>
   (fs w [''dist''] = Some Dir \<and> fs w [''dist'', ''icons''] = Some Dir \<longrightarrow>
      os_makedirs ''dist/icons'' True w = Inr w) \<and>
   (fs w [''dist'', ''icons''] = Some (File img) \<longrightarrow>
      (\<exists>e w'. os_makedirs ''dist/icons'' True w = Inl (e, w') \<and>
              create_icons w = Inl (e, w') \<and> stdout w' = stdout w)) \<and>
   (fs w [''dist''] = Some Dir \<and> fs w [''dist'', ''icons''] = Some (File img) \<longrightarrow>
      create_icons w = Inl (FileExistsError, w))"
proof (intro conjI impI)
  assume "fs w [''dist'', ''icons''] = None \<and> dir_obtainable w [''dist''] \<and>
    [''dist'', ''icons''] \<notin> denied w"
  then show "os_makedirs ''dist/icons'' True w =
        Inr (w\<lparr>fs := (fs w)([''dist''] \<mapsto> Dir, [''dist'', ''icons''] \<mapsto> Dir)\<rparr>)"
    by (simp add: makedirs_icons_obtainable dir_obtainable_def)
next
  assume "fs w [''dist''] = Some Dir \<and> fs w [''dist'', ''icons''] = Some Dir"
  then show "os_makedirs ''dist/icons'' True w = Inr w"
    by (simp add: makedirs_icons_parent_dir)
next
  assume "fs w [''dist'', ''icons''] = Some (File img)"
  then obtain e w' where "os_makedirs ''dist/icons'' True w = Inl (e, w')" "stdout w' = stdout w"
    using makedirs_icons_regular_file by blast
  then show "\<exists>e w'. os_makedirs ''dist/icons'' True w = Inl (e, w') \<and>
              create_icons w = Inl (e, w') \<and> stdout w' = stdout w"
    by (simp add: create_icons_def)
next
  assume "fs w [''dist''] = Some Dir \<and> fs w [''dist'', ''icons''] = Some (File img)"
  then show "create_icons w = Inl (FileExistsError, w)"
    by (simp add: create_icons_def makedirs_icons_parent_dir)
qed

theorem makedirs_dist_icons_witness:
  "os_makedirs ''dist/icons'' True fresh_world =
     Inr (fresh_world\<lparr>fs := [[''dist''] \<mapsto> Dir, [''dist'', ''icons''] \<mapsto> Dir]\<rparr>) \<and>
   os_makedirs ''dist/icons'' True prepared_world = Inr prepared_world \<and>
   os_makedirs ''dist/icons'' True blocked_world = Inl (FileExistsError, blocked_world) \<and>
   create_icons blocked_world = Inl (FileExistsError, blocked_world)"
  using makedirs_dist_icons [of fresh_world blank] makedirs_dist_icons [of prepared_world blank]
    makedirs_dist_icons [of blocked_world blank]
  by (auto simp add: fresh_world_def prepared_world_def blocked_world_def dir_obtainable_def)

subsection \<open>The pixels of the three icons\<close>

lemma covered_centre:
  "covered (points 16) (8, 8)" "covered (points 48) (24, 24)" "covered (points 128) (64, 64)"
  by (simp_all add: covered_def edges_def points_sixth on_edge_def crosses_def cross_def)

lemma not_covered_corners_16:
  "\<not> covered (points 16) (0, 0)" "\<not> covered (points 16) (15, 0)"
  "\<not> covered (points 16) (0, 15)" "\<not> covered (points 16) (15, 15)"
  by (simp_all add: covered_def edges_def points_sixth on_edge_def crosses_def cross_def)

lemma not_covered_corners_48:
  "\<not> covered (points 48) (0, 0)" "\<not> covered (points 48) (47, 0)"
  "\<not> covered (points 48) (0, 47)" "\<not> covered (points 48) (47, 47)"
  by (simp_all add: covered_def edges_def points_sixth on_edge_def crosses_def cross_def)

lemma not_covered_corners_128:
  "\<not> covered (points 128) (0, 0)" "\<not> covered (points 128) (127, 0)"
  "\<not> covered (points 128) (0, 127)" "\<not> covered (points 128) (127, 127)"
  by (simp_all add: covered_def edges_def points_sixth on_edge_def crosses_def cross_def)

text \<open>
  C4. For each of the sizes 16, 48 and 128 the image is drawn, the point
  \<open>(size div 2, size div 2)\<close> lies in the painted triangle, and the pixel there is
  white.
\<close>

theorem centre_pixel_white:
  assumes "sz \<in> {16, 48, 128}"
  shows "\<exists>img. draw_icon sz = Inr img \<and>
           covered (points sz) (sz div 2, sz div 2) \<and>
           getpixel img (sz div 2, sz div 2) = Inr (255, 255, 255) \<and>
           getpixel img (sz div 2, sz div 2) = getrgb ''white''"
proof -
  have "0 \<le> sz"
    using assms by auto
  then obtain img where img: "draw_icon sz = Inr img"
    by (simp add: draw_icon_nonneg)
  have inside: "covered (points sz) (sz div 2, sz div 2)"
    using assms covered_centre by auto
  have "getpixel img (sz div 2, sz div 2) = Inr (255, 255, 255)"
    using assms inside by (subst getpixel_draw_icon [OF img]) auto
  with img inside show ?thesis
    by (simp add: getrgb_white)
qed

theorem centre_pixel_white_witness:
  "(16::int) \<in> {16, 48, 128} \<and> \<not> isl (draw_icon 16) \<and> covered (points 16) (8, 8) \<and>
   getpixel (projr (draw_icon 16)) (8, 8) = Inr (255, 255, 255)"
  using centre_pixel_white [of 16] by auto

text \<open>
  C5. For each of the sizes 16, 48 and 128 none of the four corners \<open>(0, 0)\<close>,
  \<open>(size - 1, 0)\<close>, \<open>(0, size - 1)\<close>, \<open>(size - 1, size - 1)\<close> lies in the painted
  triangle or on its outline, and the four corner pixels have the background colour
  \<^verbatim>\<open>#4CAF50\<close>.
\<close>

theorem corner_pixels_background:
  assumes "sz \<in> {16, 48, 128}"
  shows "\<exists>img. draw_icon sz = Inr img \<and>
           (\<forall>corner \<in> {(0, 0), (sz - 1, 0), (0, sz - 1), (sz - 1, sz - 1)}.
              \<not> covered (points sz) corner \<and>
              getpixel img corner = Inr (76, 175, 80) \<and>
              getpixel img corner = getrgb ''#4CAF50'')"
proof -
  have "0 \<le> sz"
    using assms by auto
  then obtain img where img: "draw_icon sz = Inr img"
    by (simp add: draw_icon_nonneg)
  have outside: "\<not> covered (points sz) (0, 0)" "\<not> covered (points sz) (sz - 1, 0)"
      "\<not> covered (points sz) (0, sz - 1)" "\<not> covered (points sz) (sz - 1, sz - 1)"
    using assms not_covered_corners_16 not_covered_corners_48 not_covered_corners_128 by auto
  have pos: "0 \<le> sz - 1" "sz - 1 < sz" "0 < sz"
    using assms by auto
  have "getpixel img (0, 0) = Inr (76, 175, 80)"
    "getpixel img (sz - 1, 0) = Inr (76, 175, 80)"
    "getpixel img (0, sz - 1) = Inr (76, 175, 80)"
    "getpixel img (sz - 1, sz - 1) = Inr (76, 175, 80)"
    using outside pos by (simp_all add: getpixel_draw_icon [OF img])
  with img outside show ?thesis
    by (simp add: getrgb_background)
qed

theorem corner_pixels_background_witness:
  "(48::int) \<in> {16, 48, 128} \<and> \<not> isl (draw_icon 48) \<and>
   \<not> covered (points 48) (0, 0) \<and> \<not> covered (points 48) (47, 0) \<and>
   \<not> covered (points 48) (0, 47) \<and> \<not> covered (points 48) (47, 47) \<and>
   getpixel (projr (draw_icon 48)) (0, 0) = Inr (76, 175, 80) \<and>
   getpixel (projr (draw_icon 48)) (47, 0) = Inr (76, 175, 80) \<and>
   getpixel (projr (draw_icon 48)) (0, 47) = Inr (76, 175, 80) \<and>
   getpixel (projr (draw_icon 48)) (47, 47) = Inr (76, 175, 80)"
  using corner_pixels_background [of 48] by auto



subsection \<open>A run that an exception ends\<close>









subsection \<open>The files of the output directory\<close>









end
